theory Spec2Isabelle
  imports Main
begin

section \<open>Request finalizers\<close>

subsection \<open>Dates and the date range object\<close>

text \<open>
  A JavaScript \<open>Date\<close> wraps a time value (milliseconds since the epoch). The raw
  requests type their date fields \<open>string | Date\<close>; the union is a datatype with one
  constructor per alternative.
\<close>

datatype Date = Date (getTime: int)

datatype StringOrDate = OfString string | OfDate Date

text \<open>
  Modelled from the spec: \<open>DatePayloadType\<close>, declared in \<open>requests/messageRequest\<close>,
  is the range structure \<open>{gte?: string, lte?: string}\<close> that replaces the date range
  in a finalized request. An optional key is an \<open>option\<close>: \<open>None\<close> is a key that is
  not there.
\<close>

record DatePayloadType =
  gte :: "string option"
  lte :: "string option"

definition empty_object :: DatePayloadType where
  "empty_object = \<lparr>gte = None, lte = None\<rparr>"

text \<open>\<open>a ?? b\<close>: the left operand unless it is \<open>undefined\<close>.\<close>

definition nullish :: "'a option \<Rightarrow> 'a \<Rightarrow> 'a" where
  "nullish a b = (case a of Some v \<Rightarrow> v | None \<Rightarrow> b)"

text \<open>
  \<open>Object.assign(target, source)\<close> on range objects: every key of the source is written
  over the target, every other key of the target stays.
\<close>

definition Object_assign :: "DatePayloadType \<Rightarrow> DatePayloadType \<Rightarrow> DatePayloadType" where
  "Object_assign target source =
     \<lparr>gte = (case gte source of Some v \<Rightarrow> Some v | None \<Rightarrow> gte target),
      lte = (case lte source of Some v \<Rightarrow> Some v | None \<Rightarrow> lte target)\<rparr>"

subsection \<open>The blacklist request\<close>

record GetBlacksRequest =
  senderNumber :: "string option"
  startKey :: "string option"
  limit :: "int option"
  startDate :: "StringOrDate option"
  endDate :: "StringOrDate option"

record GetBlacksFinalizeRequest =
  type :: string
  senderNumber :: "string option"
  startKey :: "string option"
  limit :: "int option"
  dateCreated :: "DatePayloadType option"

text \<open>
  The constructor of \<open>GetBlacksFinalizeRequest\<close>, one \<open>let\<close> per assignment to
  \<open>this\<close>. The date normalizer \<open>formatWithTransfer\<close> lives in a module of its own
  (\<open>lib/stringDateTrasnfer\<close>); the constructor takes it here as its first argument, at
  the type of its declaration: a string or a Date in, a string out.
\<close>

definition GetBlacksFinalizeRequest ::
  "(StringOrDate \<Rightarrow> string) \<Rightarrow> GetBlacksRequest \<Rightarrow> GetBlacksFinalizeRequest" where
  "GetBlacksFinalizeRequest formatWithTransfer parameter =
     (let this = \<lparr>type = ''DENIAL'', senderNumber = None, startKey = None, limit = None,
                  dateCreated = None\<rparr>;
          this = this\<lparr>type := ''DENIAL''\<rparr>;
          this = this\<lparr>GetBlacksFinalizeRequest.senderNumber :=
                        GetBlacksRequest.senderNumber parameter\<rparr>;
          this = this\<lparr>GetBlacksFinalizeRequest.startKey :=
                        GetBlacksRequest.startKey parameter\<rparr>;
          this = this\<lparr>GetBlacksFinalizeRequest.limit := GetBlacksRequest.limit parameter\<rparr>;
          this = (case startDate parameter of
                    Some d \<Rightarrow>
                      this\<lparr>dateCreated := Some (Object_assign
                        (nullish (dateCreated this) empty_object)
                        \<lparr>gte = Some (formatWithTransfer d), lte = None\<rparr>)\<rparr>
                  | None \<Rightarrow> this);
          this = (case endDate parameter of
                    Some d \<Rightarrow>
                      this\<lparr>dateCreated := Some (Object_assign
                        (nullish (dateCreated this) empty_object)
                        \<lparr>gte = None, lte = Some (formatWithTransfer d)\<rparr>)\<rparr>
                  | None \<Rightarrow> this)
      in this)"

section \<open>The service facade\<close>

subsection \<open>Errors, requests and the transport collaborator\<close>

text \<open>
  The two messages of \<open>BadRequestError\<close> in \<open>send\<close> are Korean sentences; each is
  named here by what it says.
\<close>

datatype BadRequestMessage = InvalidValueEntered | AtLeastOneDataRequired

text \<open>
  Everything a facade method can be rejected with: its own two errors, and whatever the
  transport raises, which this layer never inspects.
\<close>

datatype ('f, 'x) error =
    BadRequestError BadRequestMessage
  | MessageNotReceivedError "'f list"
  | TransportError 'x

record AuthInfo =
  apiKey :: string
  apiSecret :: string

record RequestConfig =
  "method" :: string
  url :: string

record SolapiMessageService =
  baseUrl :: string
  authInfo :: AuthInfo

definition SolapiMessageService :: "string \<Rightarrow> string \<Rightarrow> SolapiMessageService" where
  "SolapiMessageService apiKey' apiSecret' =
     \<lparr>baseUrl = ''https://api.solapi.com'',
      authInfo = \<lparr>apiKey = apiKey', apiSecret = apiSecret'\<rparr>\<rparr>"

record SendRequestConfig =
  allowDuplicates :: "bool option"
  appId :: "string option"
  scheduledDate :: "StringOrDate option"
  showMessageList :: "bool option"

record DefaultAgent =
  sdkVersion :: string
  osPlatform :: string

text \<open>
  The request bodies the modelled operations hand to the transport. The request classes
  are built by \<open>new\<close> from their arguments; each is a constructor holding exactly those
  arguments, in the order of the call. \<open>'m\<close> is the \<open>Message\<close> model.
\<close>

datatype 'm Payload =
    MultipleDetailMessageSendingRequest
      "'m list" "bool option" "string option" "StringOrDate option" "bool option"
  | CreateGroupRequest string string bool "string option"
  | GroupMessageAddRequest "'m list"
  | ScheduledDateSendingRequest string

text \<open>One call of the transport: \<open>fetch(authInfo, requestConfig, payload?)\<close>.\<close>

record 'm Call =
  auth :: AuthInfo
  config :: RequestConfig
  payload :: "'m Payload option"

text \<open>
  The transport is a black box that answers a call with a decoded response or raises.
  Its answer may depend on the calls issued before (the remote service has state), so
  it reads the log of earlier calls. \<open>defaultFetcher<R, T>\<close> is generic in the response
  type \<open>T\<close>; a fetcher at each response type stands for it.
\<close>

type_synonym ('m, 'e, 'r) fetcher = "'m Call list \<Rightarrow> 'm Call \<Rightarrow> 'e + 'r"

text \<open>
  An asynchronous computation: it runs from a log of issued calls, extends the log by
  the calls it issues and ends fulfilled (\<open>Inr\<close>) or rejected (\<open>Inl\<close>).
\<close>

type_synonym ('m, 'e, 'a) promise = "'m Call list \<Rightarrow> ('e + 'a) \<times> 'm Call list"

definition throw :: "'e \<Rightarrow> ('m, 'e, 'a) promise" where
  "throw e calls = (Inl e, calls)"

text \<open>\<open>await p\<close> followed by the rest of the function body: a rejection skips the rest.\<close>

definition await :: "('m, 'e, 'a) promise \<Rightarrow> ('a \<Rightarrow> ('m, 'e, 'b) promise) \<Rightarrow> ('m, 'e, 'b) promise" where
  "await p rest calls =
     (case p calls of
        (Inl e, calls') \<Rightarrow> (Inl e, calls')
      | (Inr a, calls') \<Rightarrow> rest a calls')"

text \<open>\<open>p.then(f)\<close> with a callback that issues no call; the callback may throw.\<close>

definition then_promise :: "('m, 'e, 'a) promise \<Rightarrow> ('a \<Rightarrow> 'e + 'b) \<Rightarrow> ('m, 'e, 'b) promise" where
  "then_promise p f calls =
     (case p calls of
        (Inl e, calls') \<Rightarrow> (Inl e, calls')
      | (Inr a, calls') \<Rightarrow> (f a, calls'))"

definition defaultFetcher ::
  "('m, 'e, 'r) fetcher \<Rightarrow> AuthInfo \<Rightarrow> RequestConfig \<Rightarrow> 'm Payload option \<Rightarrow> ('m, 'e, 'r) promise" where
  "defaultFetcher fetch authInfo' requestConfig data calls =
     (let call = \<lparr>auth = authInfo', config = requestConfig, payload = data\<rparr>
      in (fetch calls call, calls @ [call]))"

text \<open>
  A loop that pushes the image of every element onto an array: the \<open>forEach\<close> of
  \<open>send\<close> and the \<open>for ... of\<close> of \<open>getKakaoChannels\<close>.
\<close>

fun push_each :: "('a \<Rightarrow> 'b) \<Rightarrow> 'a list \<Rightarrow> 'b list \<Rightarrow> 'b list" where
  "push_each f [] array = array"
| "push_each f (value # values) array = push_each f values (array @ [f value])"

subsection \<open>send\<close>

text \<open>
  The detail response is declared in \<open>responses/sendManyDetailResponse\<close>; the records
  hold the fields \<open>send\<close> reads: the two counters of the group and the list of failed
  entries (\<open>'f\<close>).
\<close>

record Count =
  total :: int
  registeredFailed :: int

record GroupInfo =
  count :: Count

record 'f DetailGroupMessageResponse =
  groupInfo :: GroupInfo
  failedMessageList :: "'f list"

text \<open>The argument of \<open>send\<close>: \<open>MessageParameter | Array<MessageParameter>\<close>.\<close>

datatype 'mp Messages = Single 'mp | Many "'mp list"

fun Array_isArray :: "'mp Messages \<Rightarrow> bool" where
  "Array_isArray (Many values) = True"
| "Array_isArray (Single value) = False"

text \<open>
  The first statement of \<open>send\<close>: the payload array, or the error of the third branch
  (which no argument reaches). \<open>Message_new\<close> is the constructor of the \<open>Message\<close>
  model.
\<close>

definition send_payload ::
  "('mp \<Rightarrow> 'm) \<Rightarrow> 'mp Messages \<Rightarrow> ('f, 'x) error + 'm list" where
  "send_payload Message_new messages =
     (case messages of
        Many values \<Rightarrow> Inr (push_each Message_new values [])
      | Single value \<Rightarrow>
          if \<not> Array_isArray (Single value) then Inr ([] @ [Message_new value])
          else Inl (BadRequestError InvalidValueEntered))"

definition send ::
  "('m, ('f, 'x) error, 'f DetailGroupMessageResponse) fetcher \<Rightarrow> ('mp \<Rightarrow> 'm) \<Rightarrow>
   SolapiMessageService \<Rightarrow> 'mp Messages \<Rightarrow> SendRequestConfig option \<Rightarrow>
   ('m, ('f, 'x) error, 'f DetailGroupMessageResponse) promise" where
  "send fetch Message_new this messages requestConfigParameter =
     (case send_payload Message_new messages of
        Inl e \<Rightarrow> throw e
      | Inr payload' \<Rightarrow>
          if length payload' = 0 then throw (BadRequestError AtLeastOneDataRequired)
          else
            let parameter = MultipleDetailMessageSendingRequest payload'
                  (Option.bind requestConfigParameter allowDuplicates)
                  (Option.bind requestConfigParameter appId)
                  (Option.bind requestConfigParameter scheduledDate)
                  (Option.bind requestConfigParameter showMessageList);
                requestConfig = \<lparr>method = ''POST'',
                                  url = baseUrl this @ ''/messages/v4/send-many/detail''\<rparr>
            in then_promise (defaultFetcher fetch (authInfo this) requestConfig (Some parameter))
                 (\<lambda>res.
                    let count' = count (groupInfo res)
                    in if length (failedMessageList res) > 0
                          \<and> total count' = registeredFailed count'
                       then Inl (MessageNotReceivedError (failedMessageList res))
                       else Inr res))"

subsection \<open>Groups and the composite operations\<close>

record GroupMessageResponse =
  groupId :: string

definition createGroup ::
  "('m, 'e, GroupMessageResponse) fetcher \<Rightarrow> DefaultAgent \<Rightarrow> SolapiMessageService \<Rightarrow>
   bool option \<Rightarrow> string option \<Rightarrow> ('m, 'e, string) promise" where
  "createGroup fetch defaultAgent this allowDuplicates' appId' =
     (let allowDuplicates' = nullish allowDuplicates' False;
          sdkVersion' = sdkVersion defaultAgent;
          osPlatform' = osPlatform defaultAgent;
          requestConfig = \<lparr>method = ''POST'', url = baseUrl this @ ''/messages/v4/groups''\<rparr>
      in then_promise
           (defaultFetcher fetch (authInfo this) requestConfig
              (Some (CreateGroupRequest sdkVersion' osPlatform' allowDuplicates' appId')))
           (\<lambda>res. Inr (groupId res)))"

definition addMessagesToGroup ::
  "('m, 'e, 'a) fetcher \<Rightarrow> SolapiMessageService \<Rightarrow> string \<Rightarrow> 'm list \<Rightarrow> ('m, 'e, 'a) promise" where
  "addMessagesToGroup fetch this groupId' messages =
     (let requestConfig = \<lparr>method = ''PUT'',
             url = baseUrl this @ ''/messages/v4/groups/'' @ groupId' @ ''/messages''\<rparr>
      in defaultFetcher fetch (authInfo this) requestConfig
           (Some (GroupMessageAddRequest messages)))"

text \<open>\<open>formatISO\<close> is the formatter of the date library.\<close>

definition reserveGroup ::
  "('m, 'e, GroupMessageResponse) fetcher \<Rightarrow> (Date \<Rightarrow> string) \<Rightarrow> SolapiMessageService \<Rightarrow>
   string \<Rightarrow> Date \<Rightarrow> ('m, 'e, GroupMessageResponse) promise" where
  "reserveGroup fetch formatISO this groupId' scheduledDate' =
     (let requestConfig = \<lparr>method = ''POST'',
             url = baseUrl this @ ''/messages/v4/groups/'' @ groupId' @ ''/schedule''\<rparr>;
          formattedScheduledDate = formatISO scheduledDate'
      in defaultFetcher fetch (authInfo this) requestConfig
           (Some (ScheduledDateSendingRequest formattedScheduledDate)))"

text \<open>
  The collaborators of the two composite operations, passed in one record: the fetcher
  at the two response types, the agent constant, and the date helpers
  \<open>stringDateTransfer\<close> (a string or a Date to a Date) and \<open>formatISO\<close>.
\<close>

record ('m, 'e, 'a) FutureCollaborators =
  fetchGroup :: "('m, 'e, GroupMessageResponse) fetcher"
  fetchAdd :: "('m, 'e, 'a) fetcher"
  agent :: DefaultAgent
  stringDateTransfer :: "StringOrDate \<Rightarrow> Date"
  formatISO :: "Date \<Rightarrow> string"

definition sendOneFuture ::
  "('m, 'e, 'a) FutureCollaborators \<Rightarrow> SolapiMessageService \<Rightarrow> 'm \<Rightarrow> StringOrDate \<Rightarrow>
   ('m, 'e, GroupMessageResponse) promise" where
  "sendOneFuture c this message scheduledDate' =
     await (createGroup (fetchGroup c) (agent c) this None None) (\<lambda>groupId'.
     await (addMessagesToGroup (fetchAdd c) this groupId' [message]) (\<lambda>_.
       let scheduledDate'' = stringDateTransfer c scheduledDate'
       in reserveGroup (fetchGroup c) (formatISO c) this groupId' scheduledDate''))"

text \<open>
  \<open>allowDuplicates = false\<close> is a default parameter: an omitted argument (\<open>None\<close>) is
  \<open>false\<close>.
\<close>

definition sendManyFuture ::
  "('m, 'e, 'a) FutureCollaborators \<Rightarrow> SolapiMessageService \<Rightarrow> 'm list \<Rightarrow> StringOrDate \<Rightarrow>
   bool option \<Rightarrow> string option \<Rightarrow> ('m, 'e, GroupMessageResponse) promise" where
  "sendManyFuture c this messages scheduledDate' allowDuplicates' appId' =
     (let allowDuplicates' = nullish allowDuplicates' False
      in await (createGroup (fetchGroup c) (agent c) this (Some allowDuplicates') appId')
           (\<lambda>groupId'.
         await (addMessagesToGroup (fetchAdd c) this groupId' messages) (\<lambda>_.
           let scheduledDate'' = stringDateTransfer c scheduledDate'
           in reserveGroup (fetchGroup c) (formatISO c) this groupId' scheduledDate'')))"

subsection \<open>Kakao channels and the blacklist query\<close>

record 'ci GetKakaoChannelsResponse =
  limit :: int
  startKey :: string
  nextKey :: "string option"
  channelList :: "'ci list"

record 'c GetKakaoChannelsFinalizeResponse =
  limit :: int
  startKey :: string
  nextKey :: "string option"
  channelList :: "'c list"



text \<open>
  \<open>getBlacks\<close>; the serializer (with the query prefix) and the date normalizer are its
  collaborators.
\<close>

definition getBlacks ::
  "('m, 'e, 'r) fetcher \<Rightarrow> (GetBlacksFinalizeRequest \<Rightarrow> string) \<Rightarrow> (StringOrDate \<Rightarrow> string) \<Rightarrow>
   SolapiMessageService \<Rightarrow> GetBlacksRequest option \<Rightarrow> ('m, 'e, 'r) promise" where
  "getBlacks fetch qs_stringify' formatWithTransfer this data =
     (let payload' = \<lparr>type = ''DENIAL'', senderNumber = None, startKey = None, limit = None,
                      dateCreated = None\<rparr>;
          payload' = (case data of
                        Some d \<Rightarrow> GetBlacksFinalizeRequest formatWithTransfer d
                      | None \<Rightarrow> payload');
          parameter = qs_stringify' payload';
          endpoint = baseUrl this @ ''/iam/v1/black'' @ parameter;
          requestConfig = \<lparr>method = ''GET'', url = endpoint\<rparr>
      in defaultFetcher fetch (authInfo this) requestConfig None)"

subsection \<open>The date normalizer\<close>

text \<open>
  Modelled from the spec: the date normalizer \<open>formatWithTransfer\<close> of
  \<open>lib/stringDateTrasnfer\<close>, which is not among the sources. It takes a string or a
  Date and returns a date-time string in ISO-8601 with offset, to the second, without
  fractions. A string is first parsed into the Date it denotes and then goes through the
  same formatter; the formatter writes the instant at the local offset of the caller's
  process. That offset is the first argument here, in minutes east of UTC.
\<close>

text \<open>
  Modelled from the spec: reading decimal fields of an ISO-8601 string.
\<close>

definition digit_of :: "char \<Rightarrow> int option" where
  "digit_of c = (let n = (of_char c :: nat) in if 48 \<le> n \<and> n \<le> 57 then Some (int n - 48) else None)"

fun number_of :: "int \<Rightarrow> string \<Rightarrow> int option" where
  "number_of acc [] = Some acc"
| "number_of acc (c # cs) =
     (case digit_of c of None \<Rightarrow> None | Some n \<Rightarrow> number_of (10 * acc + n) cs)"

text \<open>
  Modelled from the spec: the calendar of ISO-8601 (proleptic Gregorian). The day number
  of a civil date counted from 1970-01-01, its inverse, and the length of a month.
\<close>

definition days_from_civil :: "int \<Rightarrow> int \<Rightarrow> int \<Rightarrow> int" where
  "days_from_civil y m d =
     (let y' = (if m \<le> 2 then y - 1 else y);
          era = y' div 400;
          yoe = y' - era * 400;
          mp = (m + 9) mod 12;
          doy = (153 * mp + 2) div 5 + d - 1;
          doe = yoe * 365 + yoe div 4 - yoe div 100 + doy
      in era * 146097 + doe - 719468)"

definition civil_from_days :: "int \<Rightarrow> int \<times> int \<times> int" where
  "civil_from_days z =
     (let z' = z + 719468;
          era = z' div 146097;
          doe = z' - era * 146097;
          yoe = (doe - doe div 1460 + doe div 36524 - doe div 146096) div 365;
          doy = doe - (365 * yoe + yoe div 4 - yoe div 100);
          mp = (5 * doy + 2) div 153;
          d = doy - (153 * mp + 2) div 5 + 1;
          m = (if mp < 10 then mp + 3 else mp - 9);
          y = yoe + era * 400
      in (if m \<le> 2 then y + 1 else y, m, d))"

definition days_in_month :: "int \<Rightarrow> int \<Rightarrow> int" where
  "days_in_month y m =
     (if m = 2 then (if y mod 4 = 0 \<and> (y mod 100 \<noteq> 0 \<or> y mod 400 = 0) then 29 else 28)
      else if m = 4 \<or> m = 6 \<or> m = 9 \<or> m = 11 then 30 else 31)"

text \<open>
  Modelled from the spec: parsing a string "already parseable into a Date". The strings
  read are those of the canonical format, \<open>YYYY-MM-DDTHH:MM:SS\<close> followed by \<open>Z\<close> or
  by \<open>+HH:MM\<close> or \<open>-HH:MM\<close>; the result is the instant denoted, in milliseconds since
  the epoch. Every other string is not parseable (\<open>None\<close>).
\<close>

definition parse_offset :: "string \<Rightarrow> int option" where
  "parse_offset z =
     (if z = ''Z'' then Some 0
      else if length z = 6 \<and> (z ! 0 = CHR ''+'' \<or> z ! 0 = CHR ''-'') \<and> z ! 3 = CHR '':'' then
        (case (number_of 0 (take 2 (drop 1 z)), number_of 0 (drop 4 z)) of
           (Some h, Some m) \<Rightarrow>
             if h \<le> 23 \<and> m \<le> 59
             then Some ((if z ! 0 = CHR ''-'' then - 1 else 1) * (h * 60 + m))
             else None
         | _ \<Rightarrow> None)
      else None)"

definition parseISO :: "string \<Rightarrow> Date option" where
  "parseISO s =
     (if 19 \<le> length s \<and> s ! 4 = CHR ''-'' \<and> s ! 7 = CHR ''-'' \<and> s ! 10 = CHR ''T''
         \<and> s ! 13 = CHR '':'' \<and> s ! 16 = CHR '':'' then
        (case (number_of 0 (take 4 s), number_of 0 (take 2 (drop 5 s)),
               number_of 0 (take 2 (drop 8 s)), number_of 0 (take 2 (drop 11 s)),
               number_of 0 (take 2 (drop 14 s)), number_of 0 (take 2 (drop 17 s)),
               parse_offset (drop 19 s)) of
           (Some y, Some m, Some d, Some hh, Some mm, Some ss, Some off) \<Rightarrow>
             if 1 \<le> m \<and> m \<le> 12 \<and> 1 \<le> d \<and> d \<le> days_in_month y m
                \<and> hh \<le> 23 \<and> mm \<le> 59 \<and> ss \<le> 59
             then Some (Date (((days_from_civil y m d * 86400 + hh * 3600 + mm * 60 + ss)
                                - off * 60) * 1000))
             else None
         | _ \<Rightarrow> None)
      else None)"

text \<open>
  Modelled from the spec: the formatter. The instant is cut to the second, moved by the
  local offset and written as date, \<open>T\<close>, time and the offset; ISO-8601 writes the
  offset zero as \<open>Z\<close>.
\<close>

definition digit_char :: "int \<Rightarrow> char" where
  "digit_char n = ''0123456789'' ! nat (n mod 10)"

definition addLeadingZeros :: "int \<Rightarrow> nat \<Rightarrow> string" where
  "addLeadingZeros n width = map (\<lambda>i. digit_char (n div 10 ^ (width - 1 - i))) [0..<width]"

definition formatISO_offset :: "int \<Rightarrow> Date \<Rightarrow> string" where
  "formatISO_offset offset date =
     (let local = getTime date div 1000 + offset * 60;
          (y, m, d) = civil_from_days (local div 86400);
          sod = local mod 86400;
          tzOffset = (if offset \<noteq> 0
                      then (if 0 < offset then ''+'' else ''-'')
                           @ addLeadingZeros (\<bar>offset\<bar> div 60) 2 @ '':''
                           @ addLeadingZeros (\<bar>offset\<bar> mod 60) 2
                      else ''Z'')
      in addLeadingZeros y 4 @ ''-'' @ addLeadingZeros m 2 @ ''-'' @ addLeadingZeros d 2
         @ ''T'' @ addLeadingZeros (sod div 3600) 2 @ '':''
         @ addLeadingZeros (sod mod 3600 div 60) 2 @ '':'' @ addLeadingZeros (sod mod 60) 2
         @ tzOffset)"

text \<open>
  Modelled from the spec: \<open>formatWithTransfer\<close> at a local offset. The spec assumes a
  string argument parseable and says nothing of any other string; the model gives such a
  string the empty result.
\<close>

definition formatWithTransfer :: "int \<Rightarrow> StringOrDate \<Rightarrow> string" where
  "formatWithTransfer offset v =
     (case v of
        OfDate date \<Rightarrow> formatISO_offset offset date
      | OfString s \<Rightarrow>
          (case parseISO s of Some date \<Rightarrow> formatISO_offset offset date | None \<Rightarrow> []))"

subsection \<open>Sample collaborators\<close>

text \<open>
  Concrete collaborators on which the operations are run: a transport that answers every
  call with one response, a transport that raises at the call with a given index, a
  formatter that leaves a string as it is, and the data of two runs of the composite
  operations.
\<close>

definition answering :: "'r \<Rightarrow> ('m, 'e, 'r) fetcher" where
  "answering response calls call = Inr response"

definition refusing_at :: "nat \<Rightarrow> 'e \<Rightarrow> 'r \<Rightarrow> ('m, 'e, 'r) fetcher" where
  "refusing_at n e response calls call = (if length calls = n then Inl e else Inr response)"

definition keeps_strings :: "StringOrDate \<Rightarrow> string" where
  "keeps_strings v = (case v of OfString s \<Rightarrow> s | OfDate d \<Rightarrow> ''1970-01-01T09:00:00+09:00'')"

definition all_failed_unlisted :: "string DetailGroupMessageResponse" where
  "all_failed_unlisted =
     \<lparr>groupInfo = \<lparr>count = \<lparr>total = 1, registeredFailed = 1\<rparr>\<rparr>, failedMessageList = []\<rparr>"

definition all_failed_listed :: "string DetailGroupMessageResponse" where
  "all_failed_listed =
     \<lparr>groupInfo = \<lparr>count = \<lparr>total = 1, registeredFailed = 1\<rparr>\<rparr>,
      failedMessageList = [''01000000000'']\<rparr>"

definition sample_agent :: DefaultAgent where
  "sample_agent = \<lparr>sdkVersion = ''nodejs/5.0.0'', osPlatform = ''linux''\<rparr>"

definition down_at_create :: "(string, (string, string) error, unit) FutureCollaborators" where
  "down_at_create =
     \<lparr>fetchGroup = refusing_at 0 (TransportError ''503'') \<lparr>groupId = ''G1''\<rparr>,
      fetchAdd = answering (),
      agent = sample_agent,
      stringDateTransfer = (\<lambda>v. case v of OfDate d \<Rightarrow> d | OfString s \<Rightarrow> Date 0),
      formatISO = (\<lambda>d. ''2030-01-01T00:00:00+09:00'')\<rparr>"

definition down_at_add :: "(string, (string, string) error, unit) FutureCollaborators" where
  "down_at_add =
     \<lparr>fetchGroup = answering \<lparr>groupId = ''G1''\<rparr>,
      fetchAdd = refusing_at 1 (TransportError ''503'') (),
      agent = sample_agent,
      stringDateTransfer = (\<lambda>v. case v of OfDate d \<Rightarrow> d | OfString s \<Rightarrow> Date 0),
      formatISO = (\<lambda>d. ''2030-01-01T00:00:00+09:00'')\<rparr>"

definition sample_create :: "string Call" where
  "sample_create =
     \<lparr>auth = \<lparr>apiKey = ''key'', apiSecret = ''secret''\<rparr>,
      config = \<lparr>method = ''POST'', url = ''https://api.solapi.com/messages/v4/groups''\<rparr>,
      payload = Some (CreateGroupRequest ''nodejs/5.0.0'' ''linux'' False None)\<rparr>"

definition sample_add :: "string Call" where
  "sample_add =
     \<lparr>auth = \<lparr>apiKey = ''key'', apiSecret = ''secret''\<rparr>,
      config = \<lparr>method = ''PUT'', url = ''https://api.solapi.com/messages/v4/groups/G1/messages''\<rparr>,
      payload = Some (GroupMessageAddRequest [''hello''])\<rparr>"



section \<open>Properties of the blacklist finalizer\<close>

lemma GetBlacksFinalizeRequest_dateCreated:
  "dateCreated (GetBlacksFinalizeRequest f p) =
     (case (startDate p, endDate p) of
        (None, None) \<Rightarrow> None
      | (Some a, None) \<Rightarrow> Some \<lparr>gte = Some (f a), lte = None\<rparr>
      | (None, Some b) \<Rightarrow> Some \<lparr>gte = None, lte = Some (f b)\<rparr>
      | (Some a, Some b) \<Rightarrow> Some \<lparr>gte = Some (f a), lte = Some (f b)\<rparr>)"
  by (simp add: GetBlacksFinalizeRequest_def Object_assign_def nullish_def empty_object_def
      split: option.splits)

text \<open>
  C3: in the finalized blacklist request, \<open>dateCreated\<close> holds both \<open>gte\<close> and \<open>lte\<close>
  when the request has both \<open>startDate\<close> and \<open>endDate\<close>; only \<open>gte\<close> when it has only
  \<open>startDate\<close>; only \<open>lte\<close> when it has only \<open>endDate\<close>; and there is no
  \<open>dateCreated\<close> when it has neither. The values are the normalized dates.
\<close>

theorem dateCreated_keys:
  "(startDate p = Some a \<and> endDate p = Some b
      \<longrightarrow> dateCreated (GetBlacksFinalizeRequest f p) = Some \<lparr>gte = Some (f a), lte = Some (f b)\<rparr>)
   \<and> (startDate p = Some a \<and> endDate p = None
      \<longrightarrow> dateCreated (GetBlacksFinalizeRequest f p) = Some \<lparr>gte = Some (f a), lte = None\<rparr>)
   \<and> (startDate p = None \<and> endDate p = Some b
      \<longrightarrow> dateCreated (GetBlacksFinalizeRequest f p) = Some \<lparr>gte = None, lte = Some (f b)\<rparr>)
   \<and> (startDate p = None \<and> endDate p = None
      \<longrightarrow> dateCreated (GetBlacksFinalizeRequest f p) = None)"
  by (simp add: GetBlacksFinalizeRequest_dateCreated)

theorem dateCreated_keys_witness:
  "dateCreated (GetBlacksFinalizeRequest keeps_strings
      \<lparr>GetBlacksRequest.senderNumber = None, startKey = None, limit = None,
       startDate = Some (OfString ''2024-01-01T00:00:00+09:00''),
       endDate = Some (OfString ''2024-02-01T00:00:00+09:00'')\<rparr>)
     = Some \<lparr>gte = Some ''2024-01-01T00:00:00+09:00'', lte = Some ''2024-02-01T00:00:00+09:00''\<rparr>
   \<and> dateCreated (GetBlacksFinalizeRequest keeps_strings
      \<lparr>GetBlacksRequest.senderNumber = None, startKey = None, limit = None,
       startDate = Some (OfString ''2024-01-01T00:00:00+09:00''), endDate = None\<rparr>)
     = Some \<lparr>gte = Some ''2024-01-01T00:00:00+09:00'', lte = None\<rparr>
   \<and> dateCreated (GetBlacksFinalizeRequest keeps_strings
      \<lparr>GetBlacksRequest.senderNumber = None, startKey = None, limit = None,
       startDate = None, endDate = Some (OfString ''2024-02-01T00:00:00+09:00'')\<rparr>)
     = Some \<lparr>gte = None, lte = Some ''2024-02-01T00:00:00+09:00''\<rparr>
   \<and> dateCreated (GetBlacksFinalizeRequest keeps_strings
      \<lparr>GetBlacksRequest.senderNumber = Some ''0801234567'', startKey = None, limit = Some 10,
       startDate = None, endDate = None\<rparr>)
     = None"
  using
    dateCreated_keys [where f = keeps_strings
      and a = "OfString ''2024-01-01T00:00:00+09:00''"
      and b = "OfString ''2024-02-01T00:00:00+09:00''"
      and p = "\<lparr>GetBlacksRequest.senderNumber = None, startKey = None, limit = None,
       startDate = Some (OfString ''2024-01-01T00:00:00+09:00''),
       endDate = Some (OfString ''2024-02-01T00:00:00+09:00'')\<rparr>"]
    dateCreated_keys [where f = keeps_strings
      and a = "OfString ''2024-01-01T00:00:00+09:00''"
      and p = "\<lparr>GetBlacksRequest.senderNumber = None, startKey = None, limit = None,
       startDate = Some (OfString ''2024-01-01T00:00:00+09:00''), endDate = None\<rparr>"]
    dateCreated_keys [where f = keeps_strings
      and b = "OfString ''2024-02-01T00:00:00+09:00''"
      and p = "\<lparr>GetBlacksRequest.senderNumber = None, startKey = None, limit = None,
       startDate = None, endDate = Some (OfString ''2024-02-01T00:00:00+09:00'')\<rparr>"]
    dateCreated_keys [where f = keeps_strings
      and p = "\<lparr>GetBlacksRequest.senderNumber = Some ''0801234567'', startKey = None, limit = Some 10,
       startDate = None, endDate = None\<rparr>"]
  by (simp add: keeps_strings_def)

lemma parseISO_scenario: "parseISO ''2024-01-01T00:00:00+09:00'' = Some (Date 1704034800000)"
  by code_simp

text \<open>
  C4 (as the code has it): finalizing \<open>{startDate: "2024-01-01T00:00:00+09:00"}\<close> gives
  exactly \<open>{type: "DENIAL", dateCreated: {gte: s}}\<close>: the type is the constant, no other
  key is set and \<open>dateCreated\<close> has no \<open>lte\<close>. The string \<open>s\<close> is the instant of the
  input written at the local offset of the process; it is the input string
  \<open>2024-01-01T00:00:00+09:00\<close> in a process whose local offset is +09:00.
\<close>

theorem finalize_startDate_scenario:
  "GetBlacksFinalizeRequest (formatWithTransfer offset)
      \<lparr>GetBlacksRequest.senderNumber = None, startKey = None, limit = None,
       startDate = Some (OfString ''2024-01-01T00:00:00+09:00''), endDate = None\<rparr>
     = \<lparr>type = ''DENIAL'', senderNumber = None, startKey = None, limit = None,
        dateCreated = Some \<lparr>gte = Some (formatISO_offset offset (Date 1704034800000)),
                            lte = None\<rparr>\<rparr>
   \<and> formatISO_offset 540 (Date 1704034800000) = ''2024-01-01T00:00:00+09:00''
   \<and> GetBlacksFinalizeRequest (formatWithTransfer 540)
      \<lparr>GetBlacksRequest.senderNumber = None, startKey = None, limit = None,
       startDate = Some (OfString ''2024-01-01T00:00:00+09:00''), endDate = None\<rparr>
     = \<lparr>type = ''DENIAL'', senderNumber = None, startKey = None, limit = None,
        dateCreated = Some \<lparr>gte = Some ''2024-01-01T00:00:00+09:00'', lte = None\<rparr>\<rparr>"
proof -
  have general: "GetBlacksFinalizeRequest (formatWithTransfer k)
      \<lparr>GetBlacksRequest.senderNumber = None, startKey = None, limit = None,
       startDate = Some (OfString ''2024-01-01T00:00:00+09:00''), endDate = None\<rparr>
     = \<lparr>type = ''DENIAL'', senderNumber = None, startKey = None, limit = None,
        dateCreated = Some \<lparr>gte = Some (formatISO_offset k (Date 1704034800000)),
                            lte = None\<rparr>\<rparr>" for k
    by (simp add: GetBlacksFinalizeRequest_def Object_assign_def nullish_def empty_object_def
        formatWithTransfer_def parseISO_scenario)
  have local: "formatISO_offset 540 (Date 1704034800000) = ''2024-01-01T00:00:00+09:00''"
    by code_simp
  from general [of offset] general [of 540] local show ?thesis
    by simp
qed

text \<open>
  C4 as stated fails: in a process whose local offset is zero (UTC) the same request is
  finalized with \<open>gte\<close> \<open>2023-12-31T15:00:00Z\<close>, not with the input string.
\<close>

theorem finalize_startDate_scenario_counterexample:
  "GetBlacksFinalizeRequest (formatWithTransfer 0)
      \<lparr>GetBlacksRequest.senderNumber = None, startKey = None, limit = None,
       startDate = Some (OfString ''2024-01-01T00:00:00+09:00''), endDate = None\<rparr>
     = \<lparr>type = ''DENIAL'', senderNumber = None, startKey = None, limit = None,
        dateCreated = Some \<lparr>gte = Some ''2023-12-31T15:00:00Z'', lte = None\<rparr>\<rparr>
   \<and> GetBlacksFinalizeRequest (formatWithTransfer 0)
      \<lparr>GetBlacksRequest.senderNumber = None, startKey = None, limit = None,
       startDate = Some (OfString ''2024-01-01T00:00:00+09:00''), endDate = None\<rparr>
     \<noteq> \<lparr>type = ''DENIAL'', senderNumber = None, startKey = None, limit = None,
        dateCreated = Some \<lparr>gte = Some ''2024-01-01T00:00:00+09:00'', lte = None\<rparr>\<rparr>"
proof -
  have utc: "formatISO_offset 0 (Date 1704034800000) = ''2023-12-31T15:00:00Z''"
    by code_simp
  show ?thesis
    by (simp add: GetBlacksFinalizeRequest_def Object_assign_def nullish_def empty_object_def
        formatWithTransfer_def parseISO_scenario utc)
qed

section \<open>Properties of send\<close>

lemma push_each_eq: "push_each f xs array = array @ map f xs"
  by (induction xs arbitrary: array) simp_all

lemma send_payload_eq:
  "send_payload M messages = Inr (case messages of Single v \<Rightarrow> [M v] | Many vs \<Rightarrow> map M vs)"
  by (simp add: send_payload_def push_each_eq split: Messages.splits)

lemma defaultFetcher_eq:
  "defaultFetcher fetch a r d calls =
     (fetch calls \<lparr>auth = a, config = r, payload = d\<rparr>, calls @ [\<lparr>auth = a, config = r, payload = d\<rparr>])"
  by (simp add: defaultFetcher_def Let_def)

lemma send_Many_Nil: "send fetch M this (Many []) cfg calls = (Inl (BadRequestError AtLeastOneDataRequired), calls)"
  by (simp add: send_def send_payload_eq throw_def)

lemma send_eq:
  assumes "messages \<noteq> Many []"
  shows "send fetch M this messages cfg calls =
     (let call = \<lparr>auth = authInfo this,
                  config = \<lparr>method = ''POST'', url = baseUrl this @ ''/messages/v4/send-many/detail''\<rparr>,
                  payload = Some (MultipleDetailMessageSendingRequest
                     (case messages of Single v \<Rightarrow> [M v] | Many vs \<Rightarrow> map M vs)
                     (Option.bind cfg allowDuplicates) (Option.bind cfg appId)
                     (Option.bind cfg scheduledDate) (Option.bind cfg showMessageList))\<rparr>
      in (case fetch calls call of
            Inl e \<Rightarrow> Inl e
          | Inr res \<Rightarrow>
              if failedMessageList res \<noteq> [] \<and> total (count (groupInfo res)) = registeredFailed (count (groupInfo res))
              then Inl (MessageNotReceivedError (failedMessageList res)) else Inr res,
          calls @ [call]))"
  using assms
  by (cases messages)
     (simp_all add: send_def send_payload_eq then_promise_def defaultFetcher_eq Let_def
        split: sum.splits)

text \<open>
  C1 (as the code has it): when the transport answers the call of \<open>send\<close> with a
  response, \<open>send\<close> is rejected with \<open>MessageNotReceivedError\<close> carrying exactly the
  response's \<open>failedMessageList\<close> if that list is not empty and the total count equals
  the count of failed registrations; in every other case it returns the response as it
  came.
\<close>

theorem send_policy:
  assumes "snd (send fetch M this messages cfg calls) = calls @ [call]"
      and "fetch calls call = Inr res"
  shows "fst (send fetch M this messages cfg calls) =
           (if failedMessageList res \<noteq> []
               \<and> total (count (groupInfo res)) = registeredFailed (count (groupInfo res))
            then Inl (MessageNotReceivedError (failedMessageList res))
            else Inr res)"
proof (cases "messages = Many []")
  case True
  with assms(1) show ?thesis by (simp add: send_Many_Nil)
next
  case False
  from send_eq [OF False, of fetch M this cfg calls] assms show ?thesis
    by (simp add: Let_def)
qed

lemmas run_send = send_def send_payload_def throw_def then_promise_def defaultFetcher_def
  Let_def answering_def SolapiMessageService_def

theorem send_policy_witness:
  "snd (send (answering all_failed_listed :: (string, (string, unit) error, string DetailGroupMessageResponse) fetcher)
          id (SolapiMessageService ''key'' ''secret'') (Many [''01000000000'']) None [])
     = [] @ [\<lparr>auth = \<lparr>apiKey = ''key'', apiSecret = ''secret''\<rparr>,
              config = \<lparr>method = ''POST'', url = ''https://api.solapi.com/messages/v4/send-many/detail''\<rparr>,
              payload = Some (MultipleDetailMessageSendingRequest [''01000000000''] None None None None)\<rparr>]
   \<and> fst (send (answering all_failed_listed :: (string, (string, unit) error, string DetailGroupMessageResponse) fetcher)
          id (SolapiMessageService ''key'' ''secret'') (Many [''01000000000'']) None [])
     = Inl (MessageNotReceivedError [''01000000000''])"
proof -
  let ?fetch = "answering all_failed_listed :: (string, (string, unit) error, string DetailGroupMessageResponse) fetcher"
  let ?call = "\<lparr>auth = \<lparr>apiKey = ''key'', apiSecret = ''secret''\<rparr>,
              config = \<lparr>method = ''POST'', url = ''https://api.solapi.com/messages/v4/send-many/detail''\<rparr>,
              payload = Some (MultipleDetailMessageSendingRequest [''01000000000''] None None None None)\<rparr>"
  have log: "snd (send ?fetch id (SolapiMessageService ''key'' ''secret'') (Many [''01000000000'']) None [])
               = [] @ [?call]"
    by (simp add: run_send)
  have answer: "?fetch [] ?call = Inr all_failed_listed"
    by (simp add: answering_def)
  from send_policy [OF log answer] log show ?thesis
    by (simp add: all_failed_listed_def)
qed

text \<open>
  C1 as stated fails: a response whose total equals its failure count but whose
  \<open>failedMessageList\<close> is empty is returned, not turned into an error.
\<close>

theorem send_policy_counterexample:
  "total (count (groupInfo all_failed_unlisted)) = registeredFailed (count (groupInfo all_failed_unlisted))
   \<and> fst (send (answering all_failed_unlisted :: (string, (string, unit) error, string DetailGroupMessageResponse) fetcher)
            id (SolapiMessageService ''key'' ''secret'') (Single ''01000000000'') None [])
       = Inr all_failed_unlisted
   \<and> fst (send (answering all_failed_unlisted :: (string, (string, unit) error, string DetailGroupMessageResponse) fetcher)
            id (SolapiMessageService ''key'' ''secret'') (Single ''01000000000'') None [])
       \<noteq> Inl (MessageNotReceivedError (failedMessageList all_failed_unlisted))"
  by (simp add: run_send all_failed_unlisted_def)

text \<open>
  C2: \<open>send\<close> of an empty array is rejected with \<open>BadRequestError\<close> and the log of
  transport calls is as it was: no call is issued.
\<close>

theorem send_empty_array_rejected:
  "send fetch Message_new this (Many []) requestConfigParameter calls =
     (Inl (BadRequestError AtLeastOneDataRequired), calls)"
  by (simp add: send_def send_payload_eq throw_def)

text \<open>
  C6: for a single message or a non-empty array of any size, \<open>send\<close> issues exactly one
  transport call (the POST to the detail endpoint), whatever the transport answers.
\<close>

theorem send_one_call:
  assumes "messages \<noteq> Many []"
  shows "\<exists>call. snd (send fetch Message_new this messages requestConfigParameter calls) = calls @ [call]
           \<and> config call = \<lparr>method = ''POST'', url = baseUrl this @ ''/messages/v4/send-many/detail''\<rparr>
           \<and> length (snd (send fetch Message_new this messages requestConfigParameter calls))
               = length calls + 1"
  using send_eq [OF assms, of fetch Message_new this requestConfigParameter calls]
  by (simp add: Let_def)

theorem send_one_call_witness:
  "Many [''01000000000'', ''01011111111''] \<noteq> (Many [] :: string Messages)
   \<and> length (snd (send (answering all_failed_listed :: (string, (string, unit) error, string DetailGroupMessageResponse) fetcher)
          id (SolapiMessageService ''key'' ''secret'') (Many [''01000000000'', ''01011111111'']) None []))
      = 1"
proof -
  have h: "Many [''01000000000'', ''01011111111''] \<noteq> (Many [] :: string Messages)" by simp
  from send_one_call [OF h, of "answering all_failed_listed :: (string, (string, unit) error, string DetailGroupMessageResponse) fetcher"
      id "SolapiMessageService ''key'' ''secret''" None "[]"] h
  show ?thesis by auto
qed

text \<open>
  C9: \<open>send\<close> of a bare message \<open>m\<close> behaves as \<open>send\<close> of the array \<open>[m]\<close>. Both
  build the payload of the one model of \<open>m\<close>; both issue exactly the one request that
  carries this payload (the POST to the detail endpoint, with the same options) and end
  with the same outcome, decided from the transport's answer to it; and the two
  computations are equal from every log.
\<close>

theorem send_single_as_array:
  "(let call = \<lparr>auth = authInfo this,
                 config = \<lparr>method = ''POST'',
                           url = baseUrl this @ ''/messages/v4/send-many/detail''\<rparr>,
                 payload = Some (MultipleDetailMessageSendingRequest [Message_new m]
                    (Option.bind requestConfigParameter allowDuplicates)
                    (Option.bind requestConfigParameter appId)
                    (Option.bind requestConfigParameter scheduledDate)
                    (Option.bind requestConfigParameter showMessageList))\<rparr>;
        outcome = (case fetch calls call of
                     Inl e \<Rightarrow> Inl e
                   | Inr res \<Rightarrow>
                       if failedMessageList res \<noteq> []
                          \<and> total (count (groupInfo res)) = registeredFailed (count (groupInfo res))
                       then Inl (MessageNotReceivedError (failedMessageList res))
                       else Inr res)
    in send fetch Message_new this (Single m) requestConfigParameter calls
         = (outcome, calls @ [call])
       \<and> send fetch Message_new this (Many [m]) requestConfigParameter calls
         = (outcome, calls @ [call]))
   \<and> send fetch Message_new this (Single m) requestConfigParameter
       = send fetch Message_new this (Many [m]) requestConfigParameter
   \<and> (send_payload Message_new (Single m) :: ('f, 'x) error + 'm list) = Inr [Message_new m]
   \<and> (send_payload Message_new (Many [m]) :: ('f, 'x) error + 'm list) = Inr [Message_new m]"
proof -
  have single: "Single m \<noteq> Many []" and many: "Many [m] \<noteq> Many []"
    by simp_all
  have same: "send fetch Message_new this (Single m) requestConfigParameter
       = send fetch Message_new this (Many [m]) requestConfigParameter"
    by (simp add: send_def send_payload_def)
  have payloads:
    "(send_payload Message_new (Single m) :: ('f, 'x) error + 'm list) = Inr [Message_new m]"
    "(send_payload Message_new (Many [m]) :: ('f, 'x) error + 'm list) = Inr [Message_new m]"
    by (simp_all add: send_payload_def)
  have run: "send fetch Message_new this (Many [m]) requestConfigParameter calls =
     (let call = \<lparr>auth = authInfo this,
                 config = \<lparr>method = ''POST'',
                           url = baseUrl this @ ''/messages/v4/send-many/detail''\<rparr>,
                 payload = Some (MultipleDetailMessageSendingRequest [Message_new m]
                    (Option.bind requestConfigParameter allowDuplicates)
                    (Option.bind requestConfigParameter appId)
                    (Option.bind requestConfigParameter scheduledDate)
                    (Option.bind requestConfigParameter showMessageList))\<rparr>
      in (case fetch calls call of
            Inl e \<Rightarrow> Inl e
          | Inr res \<Rightarrow>
              if failedMessageList res \<noteq> []
                 \<and> total (count (groupInfo res)) = registeredFailed (count (groupInfo res))
              then Inl (MessageNotReceivedError (failedMessageList res))
              else Inr res,
          calls @ [call]))"
    using send_eq [OF many, of fetch Message_new this requestConfigParameter calls]
    by simp
  show ?thesis
    unfolding same payloads
    using run by (simp add: Let_def)
qed

section \<open>Properties of the composite operations\<close>

lemma createGroup_eq:
  "createGroup fetch ag this dup app calls =
     (let call = \<lparr>auth = authInfo this,
                  config = \<lparr>method = ''POST'', url = baseUrl this @ ''/messages/v4/groups''\<rparr>,
                  payload = Some (CreateGroupRequest (sdkVersion ag) (osPlatform ag)
                                    (nullish dup False) app)\<rparr>
      in (case fetch calls call of Inl e \<Rightarrow> Inl e | Inr res \<Rightarrow> Inr (groupId res), calls @ [call]))"
  by (simp add: createGroup_def then_promise_def defaultFetcher_eq Let_def split: sum.splits)

lemma addMessagesToGroup_eq:
  "addMessagesToGroup fetch this g ms calls =
     (let call = \<lparr>auth = authInfo this,
                  config = \<lparr>method = ''PUT'',
                            url = baseUrl this @ ''/messages/v4/groups/'' @ g @ ''/messages''\<rparr>,
                  payload = Some (GroupMessageAddRequest ms)\<rparr>
      in (fetch calls call, calls @ [call]))"
  by (simp add: addMessagesToGroup_def defaultFetcher_eq Let_def)

lemma await_Inl: "p calls = (Inl e, calls') \<Longrightarrow> await p rest calls = (Inl e, calls')"
  by (simp add: await_def)

lemma sendOneFuture_as_many:
  "sendOneFuture c this message d = sendManyFuture c this [message] d None None"
  by (rule ext) (simp add: sendOneFuture_def sendManyFuture_def await_def createGroup_eq nullish_def Let_def)

lemma sendManyFuture_create_fails:
  assumes "snd (createGroup (fetchGroup c) (agent c) this (Some (nullish dup False)) app calls) = calls @ [call1]"
      and "fetchGroup c calls call1 = Inl e"
  shows "sendManyFuture c this messages d dup app calls = (Inl e, calls @ [call1])"
proof -
  from assms have "createGroup (fetchGroup c) (agent c) this (Some (nullish dup False)) app calls
      = (Inl e, calls @ [call1])"
    by (simp add: createGroup_eq Let_def)
  then show ?thesis
    by (simp add: sendManyFuture_def Let_def await_Inl)
qed

lemma sendManyFuture_add_fails:
  assumes "snd (createGroup (fetchGroup c) (agent c) this (Some (nullish dup False)) app calls) = calls @ [call1]"
      and "fetchGroup c calls call1 = Inr res"
      and "snd (addMessagesToGroup (fetchAdd c) this (groupId res) messages (calls @ [call1]))
             = calls @ [call1, call2]"
      and "fetchAdd c (calls @ [call1]) call2 = Inl e"
  shows "sendManyFuture c this messages d dup app calls = (Inl e, calls @ [call1, call2])"
proof -
  from assms(1,2) have 1: "createGroup (fetchGroup c) (agent c) this (Some (nullish dup False)) app calls
      = (Inr (groupId res), calls @ [call1])"
    by (simp add: createGroup_eq Let_def)
  from assms(3,4) have 2: "addMessagesToGroup (fetchAdd c) this (groupId res) messages (calls @ [call1])
      = (Inl e, calls @ [call1, call2])"
    by (simp add: addMessagesToGroup_eq Let_def)
  show ?thesis
    by (simp add: sendManyFuture_def Let_def await_def 1 2)
qed

text \<open>
  C5: in \<open>sendOneFuture\<close> and in \<open>sendManyFuture\<close>, when the transport raises at the
  call that creates the group, the operation is rejected with that error and the log
  ends with that call; when it raises at the call that adds the messages, the operation
  is rejected with that error and the log ends with the creating and the adding call.
  No later call of the sequence is issued.
\<close>

theorem composite_stops_at_failed_call:
  "(snd (createGroup (fetchGroup c) (agent c) this None None calls) = calls @ [call1]
      \<and> fetchGroup c calls call1 = Inl e
    \<longrightarrow> sendOneFuture c this message d calls = (Inl e, calls @ [call1]))
   \<and> (snd (createGroup (fetchGroup c) (agent c) this None None calls) = calls @ [call1]
      \<and> fetchGroup c calls call1 = Inr res
      \<and> snd (addMessagesToGroup (fetchAdd c) this (groupId res) [message] (calls @ [call1]))
           = calls @ [call1, call2]
      \<and> fetchAdd c (calls @ [call1]) call2 = Inl e
    \<longrightarrow> sendOneFuture c this message d calls = (Inl e, calls @ [call1, call2]))
   \<and> (snd (createGroup (fetchGroup c) (agent c) this (Some (nullish dup False)) app calls)
           = calls @ [call1]
      \<and> fetchGroup c calls call1 = Inl e
    \<longrightarrow> sendManyFuture c this messages d dup app calls = (Inl e, calls @ [call1]))
   \<and> (snd (createGroup (fetchGroup c) (agent c) this (Some (nullish dup False)) app calls)
           = calls @ [call1]
      \<and> fetchGroup c calls call1 = Inr res
      \<and> snd (addMessagesToGroup (fetchAdd c) this (groupId res) messages (calls @ [call1]))
           = calls @ [call1, call2]
      \<and> fetchAdd c (calls @ [call1]) call2 = Inl e
    \<longrightarrow> sendManyFuture c this messages d dup app calls = (Inl e, calls @ [call1, call2]))"
proof -
  have same: "createGroup (fetchGroup c) (agent c) this None None
      = createGroup (fetchGroup c) (agent c) this (Some (nullish None False)) None"
    by (rule ext) (simp add: createGroup_eq nullish_def)
  show ?thesis
    unfolding sendOneFuture_as_many same
  proof (intro conjI impI; elim conjE)
    assume "snd (createGroup (fetchGroup c) (agent c) this (Some (nullish None False)) None calls)
              = calls @ [call1]"
       and "fetchGroup c calls call1 = Inl e"
    then show "sendManyFuture c this [message] d None None calls = (Inl e, calls @ [call1])"
      by (rule sendManyFuture_create_fails)
  next
    assume "snd (createGroup (fetchGroup c) (agent c) this (Some (nullish None False)) None calls)
              = calls @ [call1]"
       and "fetchGroup c calls call1 = Inr res"
       and "snd (addMessagesToGroup (fetchAdd c) this (groupId res) [message] (calls @ [call1]))
              = calls @ [call1, call2]"
       and "fetchAdd c (calls @ [call1]) call2 = Inl e"
    then show "sendManyFuture c this [message] d None None calls
                 = (Inl e, calls @ [call1, call2])"
      by (rule sendManyFuture_add_fails)
  next
    assume "snd (createGroup (fetchGroup c) (agent c) this (Some (nullish dup False)) app calls)
              = calls @ [call1]"
       and "fetchGroup c calls call1 = Inl e"
    then show "sendManyFuture c this messages d dup app calls = (Inl e, calls @ [call1])"
      by (rule sendManyFuture_create_fails)
  next
    assume "snd (createGroup (fetchGroup c) (agent c) this (Some (nullish dup False)) app calls)
              = calls @ [call1]"
       and "fetchGroup c calls call1 = Inr res"
       and "snd (addMessagesToGroup (fetchAdd c) this (groupId res) messages (calls @ [call1]))
              = calls @ [call1, call2]"
       and "fetchAdd c (calls @ [call1]) call2 = Inl e"
    then show "sendManyFuture c this messages d dup app calls
                 = (Inl e, calls @ [call1, call2])"
      by (rule sendManyFuture_add_fails)
  qed
qed

lemmas run_future = createGroup_def addMessagesToGroup_def then_promise_def defaultFetcher_def
  Let_def answering_def refusing_at_def SolapiMessageService_def nullish_def sample_agent_def
  down_at_create_def down_at_add_def sample_create_def sample_add_def

theorem composite_stops_at_failed_call_witness:
  "sendOneFuture down_at_create (SolapiMessageService ''key'' ''secret'') ''hello''
      (OfString ''2030-01-01T00:00:00+09:00'') []
     = (Inl (TransportError ''503''), [sample_create])
   \<and> sendManyFuture down_at_create (SolapiMessageService ''key'' ''secret'') [''hello'']
      (OfString ''2030-01-01T00:00:00+09:00'') None None []
     = (Inl (TransportError ''503''), [sample_create])
   \<and> sendOneFuture down_at_add (SolapiMessageService ''key'' ''secret'') ''hello''
      (OfString ''2030-01-01T00:00:00+09:00'') []
     = (Inl (TransportError ''503''), [sample_create, sample_add])
   \<and> sendManyFuture down_at_add (SolapiMessageService ''key'' ''secret'') [''hello'']
      (OfString ''2030-01-01T00:00:00+09:00'') None None []
     = (Inl (TransportError ''503''), [sample_create, sample_add])"
proof -
  let ?svc = "SolapiMessageService ''key'' ''secret''"
  have c1: "snd (createGroup (fetchGroup down_at_create) (agent down_at_create) ?svc None None [])
              = [] @ [sample_create]"
    by (simp add: run_future)
  have c1': "snd (createGroup (fetchGroup down_at_create) (agent down_at_create) ?svc
                (Some (nullish None False)) None []) = [] @ [sample_create]"
    by (simp add: run_future)
  have f1: "fetchGroup down_at_create [] sample_create = Inl (TransportError ''503'')"
    by (simp add: run_future)
  have c2: "snd (createGroup (fetchGroup down_at_add) (agent down_at_add) ?svc None None [])
              = [] @ [sample_create]"
    by (simp add: run_future)
  have c2': "snd (createGroup (fetchGroup down_at_add) (agent down_at_add) ?svc
                (Some (nullish None False)) None []) = [] @ [sample_create]"
    by (simp add: run_future)
  have f2: "fetchGroup down_at_add [] sample_create = Inr \<lparr>groupId = ''G1''\<rparr>"
    by (simp add: run_future)
  have a2: "snd (addMessagesToGroup (fetchAdd down_at_add) ?svc (groupId \<lparr>groupId = ''G1''\<rparr>)
                   [''hello''] ([] @ [sample_create])) = [] @ [sample_create, sample_add]"
    by (simp add: run_future)
  have g2: "fetchAdd down_at_add ([] @ [sample_create]) sample_add = Inl (TransportError ''503'')"
    by (simp add: run_future)
  note at_create = composite_stops_at_failed_call
    [where c = down_at_create and this = ?svc and calls = "[]" and ?call1.0 = sample_create
       and e = "TransportError ''503''" and message = "''hello''" and messages = "[''hello'']"
       and dup = None and app = None and d = "OfString ''2030-01-01T00:00:00+09:00''"]
  note at_add = composite_stops_at_failed_call
    [where c = down_at_add and this = ?svc and calls = "[]" and ?call1.0 = sample_create
       and ?call2.0 = sample_add and res = "\<lparr>groupId = ''G1''\<rparr>"
       and e = "TransportError ''503''" and message = "''hello''" and messages = "[''hello'']"
       and dup = None and app = None and d = "OfString ''2030-01-01T00:00:00+09:00''"]
  from at_create c1 c1' f1 at_add c2 c2' f2 a2 g2 show ?thesis
    by simp
qed

section \<open>Properties of getKakaoChannels\<close>




end
